theory Spec2Isabelle
  imports
    Complex_Main
    "HOL-Library.Char_ord"
    "HOL-Library.List_Lexorder"
    "HOL-Library.Sublist"
begin

section \<open>Python values used by queryservice.py\<close>

text \<open>
  Strings are byte sequences in UTF-8, so \<^verbatim>\<open>r.text.encode("utf-8")\<close> is the identity;
  the order on strings is the lexicographic order on bytes, which for UTF-8 is Python's
  order on code points.

  The keys and values of the argument dicts are objects: \<^verbatim>\<open>pickle.dumps\<close> writes a str
  object in full where it first meets it and as a reference to its memo entry where it
  meets the same object again, so the pickle of a dict, and with it the cache key, depends
  on which of its strings are one object. A str object is therefore its identity \<open>oid\<close>
  and its characters; two objects of the same identity are the same object. Equality,
  hashing and ordering look at the characters only. Integers are pickled by value and
  need no identity. Argument values are strings or integers
  (\<^verbatim>\<open>{"retmode": "xml", "restart": 0}\<close>).
\<close>

datatype pystr = Str (oid: nat) (str_chars: string)

datatype pyval = PyStr pystr | PyInt int

text \<open>
  A Python dict is its list of items in insertion order, its keys distinct as strings.
  \<^verbatim>\<open>d[k] = v\<close>: a key equal to \<open>k\<close> keeps its place and its key object and takes the new
  value, a new key goes to the end. \<^verbatim>\<open>dict(items)\<close> inserts the items from left to right.
\<close>

type_synonym dict = "(pystr \<times> pyval) list"

fun setitem :: "dict \<Rightarrow> pystr \<Rightarrow> pyval \<Rightarrow> dict" where
  "setitem [] k v = [(k, v)]"
| "setitem (p # d) k v =
     (if str_chars (fst p) = str_chars k then (fst p, v) # d else p # setitem d k v)"

definition py_dict :: "(pystr \<times> pyval) list \<Rightarrow> dict" where
  "py_dict items = fold (\<lambda>kv d. setitem d (fst kv) (snd kv)) items []"

text \<open>
  \<^verbatim>\<open>sorted(d.items())\<close>: the keys of a dict are distinct, so the comparison of two item
  tuples is decided by the characters of their keys and never looks at the values.
\<close>

definition sorted_items :: "dict \<Rightarrow> (pystr \<times> pyval) list" where
  "sorted_items d = sort_key (\<lambda>kv. str_chars (fst kv)) d"

text \<open>
  What \<^verbatim>\<open>==\<close> compares in two dicts: the characters of the keys and the values as
  strings or numbers, without the identities.
\<close>

definition plain :: "pyval \<Rightarrow> string + int" where
  "plain v = (case v of PyStr x \<Rightarrow> Inl (str_chars x) | PyInt i \<Rightarrow> Inr i)"

definition contents :: "dict \<Rightarrow> (string \<times> (string + int)) set" where
  "contents d = set (map (\<lambda>kv. (str_chars (fst kv), plain (snd kv))) d)"

text \<open>\<^verbatim>\<open>needle in hay\<close> on strings: \<open>needle\<close> occurs as a contiguous substring.\<close>

fun str_in :: "string \<Rightarrow> string \<Rightarrow> bool" where
  "str_in needle [] = (needle = [])"
| "str_in needle (c # cs) = (prefix needle (c # cs) \<or> str_in needle cs)"

text \<open>\<^verbatim>\<open>str(n)\<close> for an integer, as \<^verbatim>\<open>{r.status_code}\<close> formats it.\<close>

definition digit :: "nat \<Rightarrow> char" where
  "digit d = ''0123456789'' ! d"

function str_nat :: "nat \<Rightarrow> string" where
  "str_nat n = (if n < 10 then [digit n] else str_nat (n div 10) @ [digit (n mod 10)])"
  by pat_completeness auto
termination
  by (relation "measure id") auto

declare str_nat.simps [simp del]

definition str_int :: "int \<Rightarrow> string" where
  "str_int i = (if i < 0 then ''-'' @ str_nat (nat (- i)) else str_nat (nat i))"

section \<open>Exceptions\<close>

text \<open>
  Every exception the code raises or lets through, with its message.
  \<open>EutilsRequestError\<close> and \<open>EutilsNCBIError\<close> are the two classes the module imports
  from \<^verbatim>\<open>.exceptions\<close>; the others come from the libraries it calls.
\<close>

datatype exn =
    EutilsRequestError string
  | EutilsNCBIError string
  | XMLSyntaxError string
  | AttributeError string
  | KeyError string
  | ValueError string
  | RequestException string
  | OSError string

text \<open>\<^verbatim>\<open>"{}".format(ex)\<close>: the message the exception was raised with.\<close>

fun str_exn :: "exn \<Rightarrow> string" where
  "str_exn (EutilsRequestError m) = m"
| "str_exn (EutilsNCBIError m) = m"
| "str_exn (XMLSyntaxError m) = m"
| "str_exn (AttributeError m) = m"
| "str_exn (KeyError m) = m"
| "str_exn (ValueError m) = m"
| "str_exn (RequestException m) = m"
| "str_exn (OSError m) = m"

section \<open>Parsed markup (lxml.etree)\<close>

text \<open>
  The tree \<^verbatim>\<open>lxml.etree.fromstring\<close> returns: an element has a tag, attributes, the text
  before its first child (\<^verbatim>\<open>None\<close> when there is none) and its child elements.
\<close>

datatype element =
  Element (tag: string) (attrib: "(string \<times> string) list") (el_text: "string option")
    (children: "element list")

text \<open>\<^verbatim>\<open>xml.find("ERROR")\<close>: the first child of \<open>xml\<close> with that tag, or \<^verbatim>\<open>None\<close>.\<close>

fun first_tagged :: "string \<Rightarrow> element list \<Rightarrow> element option" where
  "first_tagged t [] = None"
| "first_tagged t (c # cs) = (if tag c = t then Some c else first_tagged t cs)"

definition el_find :: "element \<Rightarrow> string \<Rightarrow> element option" where
  "el_find xml t = first_tagged t (children xml)"

text \<open>
  The truth value of an element in a condition (\<^verbatim>\<open>errornode.text if errornode else ...\<close>):
  lxml's \<^verbatim>\<open>_Element.__bool__\<close> answers whether the element has children, so an element
  holding text only is false. \<^verbatim>\<open>None\<close> is false.
\<close>

definition el_bool :: "element \<Rightarrow> bool" where
  "el_bool e = (children e \<noteq> [])"

text \<open>\<^verbatim>\<open>"{error}".format(error=node.text)\<close>: the text, or \<^verbatim>\<open>None\<close> printed.\<close>

definition format_text :: "string option \<Rightarrow> string" where
  "format_text t = (case t of None \<Rightarrow> ''None'' | Some s \<Rightarrow> s)"

text \<open>
  \<^verbatim>\<open>.xpath("//meta/@content='no-cache'")\<close>: true when some \<^verbatim>\<open>meta\<close> element of the document,
  the root included, has the attribute \<^verbatim>\<open>content\<close> equal to \<^verbatim>\<open>no-cache\<close>.
\<close>

fun xpath_meta_no_cache :: "element \<Rightarrow> bool"
  and xpath_meta_no_cache_list :: "element list \<Rightarrow> bool" where
  "xpath_meta_no_cache (Element t a x cs) =
     ((t = ''meta'' \<and> map_of a ''content'' = Some ''no-cache'') \<or> xpath_meta_no_cache_list cs)"
| "xpath_meta_no_cache_list [] = False"
| "xpath_meta_no_cache_list (c # cs) = (xpath_meta_no_cache c \<or> xpath_meta_no_cache_list cs)"

section \<open>The reply of requests.post\<close>

record response =
  ok :: bool
  status_code :: int
  reason :: string
  headers :: "string \<rightharpoonup> string"
  resp_text :: string
  content :: string
  json :: "exn + (string \<rightharpoonup> string)"

section \<open>The store\<close>

text \<open>
  Modelled from the spec: the class \<^verbatim>\<open>SQLiteCache\<close> (module \<^verbatim>\<open>.sqlitecache\<close>) is not part of the
  sources at hand. The spec gives the store two operations, \<^verbatim>\<open>get(key) -> bytes | notFound\<close> and
  \<^verbatim>\<open>put(key, value)\<close>; the code reaches them as \<^verbatim>\<open>self._cache[key]\<close> (\<^verbatim>\<open>KeyError\<close> when not found)
  and \<^verbatim>\<open>self._cache[key] = value\<close>. A configured store counts as true in a condition.
\<close>

type_synonym store = "string \<rightharpoonup> string"

section \<open>The environment of a call\<close>

text \<open>
  What the code calls and does not define. \<open>monotonic_throttle\<close> is the reading of
  \<^verbatim>\<open>time.monotonic()\<close> in the throttle computation, \<open>monotonic_done\<close> the reading taken after
  \<^verbatim>\<open>requests.post\<close> has returned. \<open>etree_fromstring\<close> parses the encoded body, \<open>etree_XML\<close> the
  body text. \<open>pickle_dumps\<close> is \<^verbatim>\<open>pickle.dumps\<close> on the pair the code pickles: the url, a
  string the call has just built and shares with nothing, goes in as its characters, the
  sorted items as the objects they are. \<open>request_error_is_Exception\<close> says whether \<open>EutilsRequestError\<close> derives from
  \<^verbatim>\<open>Exception\<close>, which the absent module \<^verbatim>\<open>.exceptions\<close> decides: an \<^verbatim>\<open>except Exception\<close>
  clause catches it exactly then. \<open>home\<close> is \<^verbatim>\<open>os.path.expanduser("~")\<close>.
\<close>

record env =
  md5_hexdigest :: "string \<Rightarrow> string"
  pickle_dumps :: "string \<times> (pystr \<times> pyval) list \<Rightarrow> string"
  etree_fromstring :: "string \<Rightarrow> exn + element"
  etree_XML :: "string \<Rightarrow> exn + element"
  requests_post :: "string \<Rightarrow> dict \<Rightarrow> exn + response"
  monotonic_throttle :: real
  monotonic_done :: real
  SQLiteCache :: "string \<Rightarrow> exn + store"
  request_error_is_Exception :: bool
  home :: string

fun is_Exception :: "env \<Rightarrow> exn \<Rightarrow> bool" where
  "is_Exception E (EutilsRequestError m) = request_error_is_Exception E"
| "is_Exception E ex = True"

section \<open>Module constants\<close>

definition url_base :: string where
  "url_base = ''https://eutils.ncbi.nlm.nih.gov/entrez/eutils''"

text \<open>
  The string literals of the module are objects made once, when the module is loaded;
  they are numbered here from 0 in the order the module names them.
\<close>

definition default_default_args :: dict where
  "default_default_args =
     [(Str 0 ''retmode'', PyStr (Str 1 ''xml'')), (Str 2 ''usehistory'', PyStr (Str 3 ''y'')),
      (Str 4 ''restart'', PyInt 0), (Str 5 ''retmax'', PyInt 10000)]"

definition default_email :: pystr where
  "default_email = Str 6 ''biocommons-dev@googlegroups.com''"

definition default_cache_path :: "env \<Rightarrow> string" where
  "default_cache_path E = home E @ ''/.cache/eutils-cache.db''"

definition access_denied_marker :: string where
  \<open>access_denied_marker = ''<h1 class="error">Access Denied</h1>''\<close>

section \<open>The client\<close>

record QueryService =
  default_args :: dict
  email :: pystr
  tool :: pystr
  api_key :: "string option"
  request_interval :: real
  last_request_clock :: real
  ident_args :: dict
  request_count :: nat
  cache :: "store option"

text \<open>
  The constructor's \<^verbatim>\<open>cache\<close> argument is \<^verbatim>\<open>True\<close>, \<^verbatim>\<open>False\<close> or a path. The clock and
  the interval are Python floats, read here as real numbers: the sign of
  \<^verbatim>\<open>req_int - (now - last)\<close> is the only thing the code looks at.
\<close>

datatype cache_arg = CacheBool bool | CachePath string

definition cache_path :: "env \<Rightarrow> cache_arg \<Rightarrow> string option" where
  "cache_path E c =
     (case c of
        CacheBool b \<Rightarrow> (if b then Some (default_cache_path E) else None)
      | CachePath p \<Rightarrow> (if p \<noteq> [] then Some p else None))"

definition open_cache :: "env \<Rightarrow> cache_arg \<Rightarrow> exn + store option" where
  "open_cache E c =
     (case cache_path E c of
        None \<Rightarrow> Inr None
      | Some p \<Rightarrow> (case SQLiteCache E p of Inl ex \<Rightarrow> Inl ex | Inr st \<Rightarrow> Inr (Some st)))"

definition QueryService_init ::
  "env \<Rightarrow> pystr \<Rightarrow> cache_arg \<Rightarrow> dict \<Rightarrow> real option \<Rightarrow> pystr \<Rightarrow> string option
     \<Rightarrow> exn + QueryService" where
  "QueryService_init E email' cache' default_args' request_interval' tool' api_key' =
     (let requests_per_second = (if api_key' = None then 3 else 10)
      in case open_cache E cache' of
           Inl ex \<Rightarrow> Inl ex
         | Inr c \<Rightarrow>
             Inr \<lparr>default_args = default_args',
                  email = email',
                  tool = tool',
                  api_key = api_key',
                  request_interval = 1 / requests_per_second,
                  last_request_clock = 0,
                  ident_args = [(Str 7 ''tool'', PyStr tool'), (Str 8 ''email'', PyStr email')],
                  request_count = 0,
                  cache = c\<rparr>)"

section \<open>The query\<close>

text \<open>
  What a call does besides returning: it sleeps, it posts, it writes to the store.
  A run is the value returned or the exception raised, the client afterwards and
  these effects in order.
\<close>

datatype event = Sleep real | Post string dict | Store_put string string

record run =
  outcome :: "exn + string"
  service :: QueryService
  trace :: "event list"

text \<open>
  The nested function \<^verbatim>\<open>_cacheable\<close>: the parse is made only when the text holds
  \<^verbatim>\<open>no-cache\<close>, and what the parser raises is raised by \<^verbatim>\<open>_cacheable\<close>.
\<close>

definition cacheable :: "env \<Rightarrow> string \<Rightarrow> exn + bool" where
  "cacheable E r =
     (if str_in ''no-cache'' r
      then (case etree_XML E r of
              Inl ex \<Rightarrow> Inl ex
            | Inr xml \<Rightarrow> Inr (\<not> xpath_meta_no_cache xml))
      else Inr True)"

definition defining_args :: "QueryService \<Rightarrow> dict \<Rightarrow> dict" where
  "defining_args self args = py_dict (default_args self @ args)"

definition full_args :: "QueryService \<Rightarrow> dict \<Rightarrow> dict" where
  "full_args self args = py_dict (ident_args self @ defining_args self args)"

definition cache_key :: "env \<Rightarrow> string \<Rightarrow> dict \<Rightarrow> string" where
  "cache_key E url dargs = md5_hexdigest E (pickle_dumps E (url, sorted_items dargs))"

text \<open>Lines 273 to 286: the read of the store, skipped with \<^verbatim>\<open>skip_cache\<close>.\<close>

definition cache_lookup :: "QueryService \<Rightarrow> string \<Rightarrow> bool \<Rightarrow> string option" where
  "cache_lookup self key skip_cache =
     (if \<not> skip_cache
      then (case cache self of None \<Rightarrow> None | Some st \<Rightarrow> st key)
      else None)"

text \<open>Lines 288 and 289: \<^verbatim>\<open>if self.api_key\<close> is false for \<^verbatim>\<open>None\<close> and for the empty string.\<close>

definition request_url :: "QueryService \<Rightarrow> string \<Rightarrow> string" where
  "request_url self url =
     (case api_key self of
        None \<Rightarrow> url
      | Some k \<Rightarrow> (if k \<noteq> [] then url @ ''?api_key='' @ k else url))"

text \<open>Lines 293 to 298.\<close>

definition sleep_time :: "QueryService \<Rightarrow> real \<Rightarrow> real" where
  "sleep_time self now = request_interval self - (now - last_request_clock self)"

definition throttle :: "env \<Rightarrow> QueryService \<Rightarrow> bool \<Rightarrow> event list" where
  "throttle E self skip_sleep =
     (if \<not> skip_sleep \<and> sleep_time self (monotonic_throttle E) > 0
      then [Sleep (sleep_time self (monotonic_throttle E))]
      else [])"

text \<open>\<^verbatim>\<open>"{r.reason} ({r.status_code}): {error}"\<close>\<close>

definition format_error :: "response \<Rightarrow> string \<Rightarrow> string" where
  "format_error r error = reason r @ '' ('' @ str_int (status_code r) @ ''): '' @ error"

text \<open>
  The handler \<^verbatim>\<open>except Exception as ex: raise EutilsNCBIError(...)\<close> around the two parses:
  it receives whatever the \<^verbatim>\<open>try\<close> block raised, the \<open>EutilsRequestError\<close> raised there too.
\<close>

definition except_Exception :: "env \<Rightarrow> exn \<Rightarrow> exn" where
  "except_Exception E ex =
     (if is_Exception E ex
      then EutilsNCBIError (''Error parsing response object from NCBI: '' @ str_exn ex)
      else ex)"

text \<open>Lines 314 to 317, the \<^verbatim>\<open>try\<close> block of a failing status: it always raises.\<close>

definition try_not_ok :: "env \<Rightarrow> response \<Rightarrow> exn" where
  "try_not_ok E r =
     (case etree_fromstring E (resp_text r) of
        Inl ex \<Rightarrow> ex
      | Inr xml \<Rightarrow>
          (let errornode = el_find xml ''ERROR'';
               errormsg = (case errornode of
                             None \<Rightarrow> ''Unknown Error''
                           | Some n \<Rightarrow> (if el_bool n then format_text (el_text n)
                                        else ''Unknown Error''))
           in EutilsRequestError (format_error r errormsg)))"

text \<open>
  The message of the \<open>AttributeError\<close> that \<^verbatim>\<open>None.text\<close> raises:
  \<^verbatim>\<open>'NoneType' object has no attribute 'text'\<close>.
\<close>

definition none_has_no_text :: string where
  "none_has_no_text =
     CHR 0x27 # ''NoneType'' @ CHR 0x27 # '' object has no attribute '' @ CHR 0x27 # ''text'' @ [CHR 0x27]"

text \<open>Lines 324 and 325, the \<^verbatim>\<open>try\<close> block of an embedded error: it always raises.\<close>

definition try_embedded :: "env \<Rightarrow> response \<Rightarrow> exn" where
  "try_embedded E r =
     (case etree_fromstring E (resp_text r) of
        Inl ex \<Rightarrow> ex
      | Inr xml \<Rightarrow>
          (case el_find xml ''ERROR'' of
             None \<Rightarrow> AttributeError none_has_no_text
           | Some n \<Rightarrow> EutilsRequestError (format_error r (format_text (el_text n)))))"

text \<open>Lines 308 to 330: the checks on the reply, \<open>Inr ()\<close> when none of them raises.\<close>

definition check_reply :: "env \<Rightarrow> string \<Rightarrow> response \<Rightarrow> exn + unit" where
  "check_reply E url r =
     (if \<not> ok r then
        (case headers r ''Content-Type'' of
           None \<Rightarrow> Inl (KeyError ''Content-Type'')
         | Some ct \<Rightarrow>
             (if ct = ''application/json'' then
                (case json r of
                   Inl ex \<Rightarrow> Inl ex
                 | Inr j \<Rightarrow>
                     (case j ''error'' of
                        None \<Rightarrow> Inl (KeyError ''error'')
                      | Some e \<Rightarrow> Inl (EutilsRequestError (format_error r e))))
              else Inl (except_Exception E (try_not_ok E r))))
      else if str_in ''<error>'' (resp_text r) \<or> str_in ''<ERROR>'' (resp_text r) then
        Inl (except_Exception E (try_embedded E r))
      else if str_in access_denied_marker (resp_text r) then
        Inl (EutilsRequestError (''Access Denied: '' @ url))
      else Inr ())"

text \<open>Lines 332 to 340: the write to the store and the return.\<close>

definition store_reply ::
  "env \<Rightarrow> QueryService \<Rightarrow> string \<Rightarrow> response \<Rightarrow> event list \<Rightarrow> run" where
  "store_reply E self key r tr =
     (case cache self of
        None \<Rightarrow> \<lparr>outcome = Inr (content r), service = self, trace = tr\<rparr>
      | Some st \<Rightarrow>
          (case cacheable E (resp_text r) of
             Inl ex \<Rightarrow> \<lparr>outcome = Inl ex, service = self, trace = tr\<rparr>
           | Inr c \<Rightarrow>
               (if c
                then \<lparr>outcome = Inr (content r),
                      service = self\<lparr>cache := Some (st(key \<mapsto> content r))\<rparr>,
                      trace = tr @ [Store_put key (content r)]\<rparr>
                else \<lparr>outcome = Inr (content r), service = self, trace = tr\<rparr>)))"

text \<open>Lines 249 and 250: \<^verbatim>\<open>args=None\<close> stands for the empty dict.\<close>

definition args_or_empty :: "dict option \<Rightarrow> dict" where
  "args_or_empty args = (case args of None \<Rightarrow> [] | Some a \<Rightarrow> a)"

text \<open>
  The cache key of a call (lines 262 to 267) and the url the request goes to
  (lines 262, 288 and 289).
\<close>

definition query_key :: "env \<Rightarrow> QueryService \<Rightarrow> string \<Rightarrow> dict option \<Rightarrow> string" where
  "query_key E self path args =
     cache_key E (url_base @ path) (defining_args self (args_or_empty args))"

definition query_url :: "QueryService \<Rightarrow> string \<Rightarrow> string" where
  "query_url self path = request_url self (url_base @ path)"

text \<open>Lines 288 to 340: what happens when the store did not answer.\<close>

definition fetch ::
  "env \<Rightarrow> QueryService \<Rightarrow> string \<Rightarrow> string \<Rightarrow> dict \<Rightarrow> bool \<Rightarrow> run" where
  "fetch E self url' key fargs skip_sleep =
     (let tr = throttle E self skip_sleep @ [Post url' fargs]
      in case requests_post E url' fargs of
           Inl ex \<Rightarrow> \<lparr>outcome = Inl ex, service = self, trace = tr\<rparr>
         | Inr r \<Rightarrow>
             (let self' = self\<lparr>last_request_clock := monotonic_done E\<rparr>
              in case check_reply E url' r of
                   Inl ex \<Rightarrow> \<lparr>outcome = Inl ex, service = self', trace = tr\<rparr>
                 | Inr u \<Rightarrow> store_reply E self' key r tr))"

text \<open>The method \<^verbatim>\<open>_query\<close>.\<close>

definition query ::
  "env \<Rightarrow> QueryService \<Rightarrow> string \<Rightarrow> dict option \<Rightarrow> bool \<Rightarrow> bool \<Rightarrow> run" where
  "query E self path args skip_cache skip_sleep =
     (let key = query_key E self path args
      in case cache_lookup self key skip_cache of
           Some v \<Rightarrow> \<lparr>outcome = Inr v, service = self, trace = []\<rparr>
         | None \<Rightarrow>
             fetch E self (query_url self path) key
               (full_args self (args_or_empty args)) skip_sleep)"

text \<open>The writes to the store and the sleeps of a trace, in order.\<close>

fun puts :: "event list \<Rightarrow> (string \<times> string) list" where
  "puts [] = []"
| "puts (Store_put k v # es) = (k, v) # puts es"
| "puts (e # es) = puts es"

fun slept :: "event list \<Rightarrow> real list" where
  "slept [] = []"
| "slept (Sleep t # es) = t # slept es"
| "slept (e # es) = slept es"

fun posts :: "event list \<Rightarrow> (string \<times> dict) list" where
  "posts [] = []"
| "posts (Post u a # es) = (u, a) # posts es"
| "posts (e # es) = posts es"

text \<open>The five entry points.\<close>

definition efetch :: "env \<Rightarrow> QueryService \<Rightarrow> dict \<Rightarrow> run" where
  "efetch E self args = query E self ''/efetch.fcgi'' (Some args) False False"

definition einfo :: "env \<Rightarrow> QueryService \<Rightarrow> dict option \<Rightarrow> run" where
  "einfo E self args =
     query E self ''/einfo.fcgi'' (Some (case args of None \<Rightarrow> [] | Some a \<Rightarrow> a)) True False"

definition esearch :: "env \<Rightarrow> QueryService \<Rightarrow> dict \<Rightarrow> run" where
  "esearch E self args = query E self ''/esearch.fcgi'' (Some args) False False"

definition elink :: "env \<Rightarrow> QueryService \<Rightarrow> dict \<Rightarrow> run" where
  "elink E self args = query E self ''/elink.fcgi'' (Some args) False False"

definition esummary :: "env \<Rightarrow> QueryService \<Rightarrow> dict \<Rightarrow> run" where
  "esummary E self args = query E self ''/esummary.fcgi'' (Some args) False False"

section \<open>Sample documents, replies, clients\<close>

text \<open>
  Concrete inputs for the instances below. \<open>sample_parse\<close> gives, for each sample document,
  the tree lxml builds for it, and a syntax error for every other text; of those only
  \<open>doc_broken\<close>, which is not markup, is used.
\<close>

definition doc_error :: string where
  "doc_error = ''<eSearchResult><ERROR>bad database</ERROR></eSearchResult>''"

definition tree_error :: element where
  "tree_error =
     Element ''eSearchResult'' [] None [Element ''ERROR'' [] (Some ''bad database'') []]"

definition doc_error_lower :: string where
  "doc_error_lower = ''<r><error>x</error></r>''"

definition tree_error_lower :: element where
  "tree_error_lower = Element ''r'' [] None [Element ''error'' [] (Some ''x'') []]"

definition doc_denied :: string where
  \<open>doc_denied = ''<html><h1 class="error">Access Denied</h1></html>''\<close>

definition tree_denied :: element where
  "tree_denied =
     Element ''html'' [] None
       [Element ''h1'' [(''class'', ''error'')] (Some ''Access Denied'') []]"

definition doc_info :: string where
  "doc_info = ''<eInfoResult/>''"

definition tree_info :: element where
  "tree_info = Element ''eInfoResult'' [] None []"

definition doc_no_cache :: string where
  \<open>doc_no_cache = ''<html><meta content="no-cache"/></html>''\<close>

definition tree_no_cache :: element where
  "tree_no_cache =
     Element ''html'' [] None [Element ''meta'' [(''content'', ''no-cache'')] None []]"

definition doc_broken :: string where
  "doc_broken = ''no-cache <oops''"

definition sample_parse :: "string \<Rightarrow> exn + element" where
  "sample_parse s =
     (if s = doc_error then Inr tree_error
      else if s = doc_error_lower then Inr tree_error_lower
      else if s = doc_denied then Inr tree_denied
      else if s = doc_info then Inr tree_info
      else if s = doc_no_cache then Inr tree_no_cache
      else Inl (XMLSyntaxError ''not well-formed''))"

definition sample_reply :: "bool \<Rightarrow> int \<Rightarrow> string \<Rightarrow> string \<Rightarrow> response" where
  "sample_reply k code rsn body =
     \<lparr>ok = k, status_code = code, reason = rsn,
      headers = [''Content-Type'' \<mapsto> ''text/xml''],
      resp_text = body, content = body,
      json = Inl (ValueError ''Expecting value'')\<rparr>"

text \<open>
  A stand-in for the digest of the pickle: the url followed by the sorted items,
  one \<^verbatim>\<open>&key\<close> each.
\<close>

definition sample_dumps :: "string \<times> (pystr \<times> pyval) list \<Rightarrow> string" where
  "sample_dumps p = fst p @ concat (map (\<lambda>kv. ''&'' @ str_chars (fst kv)) (snd p))"

definition sample_env :: "response \<Rightarrow> bool \<Rightarrow> real \<Rightarrow> env" where
  "sample_env r caught now =
     \<lparr>md5_hexdigest = (\<lambda>b. b),
      pickle_dumps = sample_dumps,
      etree_fromstring = sample_parse,
      etree_XML = sample_parse,
      requests_post = (\<lambda>url fargs. Inr r),
      monotonic_throttle = now,
      monotonic_done = now + 1,
      SQLiteCache = (\<lambda>p. Inr Map.empty),
      request_error_is_Exception = caught,
      home = ''/root''\<rparr>"

text \<open>
  Objects the caller made: the name of its tool, the key \<^verbatim>\<open>db\<close>, the key \<^verbatim>\<open>term\<close>, two
  strings \<^verbatim>\<open>gene\<close> that are equal and not one object, a string \<^verbatim>\<open>bogus\<close>; and the
  arguments of two searches.
\<close>

definition sample_tool :: pystr where
  "sample_tool = Str 20 ''eutils''"

definition key_db :: pystr where
  "key_db = Str 21 ''db''"

definition key_term :: pystr where
  "key_term = Str 22 ''term''"

definition gene_a :: pystr where
  "gene_a = Str 23 ''gene''"

definition gene_b :: pystr where
  "gene_b = Str 24 ''gene''"

definition args_gene :: dict where
  "args_gene = [(key_db, PyStr gene_a)]"

definition args_bogus :: dict where
  "args_bogus = [(key_db, PyStr (Str 25 ''bogus''))]"

definition sample_client :: "string option \<Rightarrow> store option \<Rightarrow> QueryService" where
  "sample_client k c =
     \<lparr>default_args = [(Str 0 ''retmode'', PyStr (Str 1 ''xml''))],
      email = default_email,
      tool = sample_tool,
      api_key = k,
      request_interval = (if k = None then 1 / 3 else 1 / 10),
      last_request_clock = 5,
      ident_args = [(Str 7 ''tool'', PyStr sample_tool), (Str 8 ''email'', PyStr default_email)],
      request_count = 0,
      cache = c\<rparr>"

text \<open>
  A reply that rejects the request in JSON, the key \<open>sample_env\<close> computes for a search
  with the arguments \<^verbatim>\<open>{"db": ...}\<close> on \<open>sample_client\<close>, a store holding a payload under that
  key, and the client the constructor builds from the default arguments without a store
  or an API key.
\<close>

definition doc_json :: string where
  \<open>doc_json = ''{"error": "API key invalid"}''\<close>

definition sample_json_reply :: response where
  "sample_json_reply =
     \<lparr>ok = False, status_code = 400, reason = ''Bad Request'',
      headers = [''Content-Type'' \<mapsto> ''application/json''],
      resp_text = doc_json, content = doc_json,
      json = Inr [''error'' \<mapsto> ''API key invalid'']\<rparr>"

text \<open>
  Two searches with the same arguments: in the first the two values \<^verbatim>\<open>gene\<close> are one
  object, in the second they are two equal objects and the items were inserted in the
  other order. \<open>pickle_shared\<close> and \<open>pickle_copied\<close> are the bytes \<^verbatim>\<open>pickle.dumps\<close> returns
  (protocol 4, the default of Python 3.8 to 3.13) for the url of a search and the sorted
  items of the first and of the second: the first refers back to the memo entry of
  \<^verbatim>\<open>gene\<close> (\<^verbatim>\<open>h\<close>, 3) where the second writes the string again. \<open>stdlib_dumps\<close> and
  \<open>stdlib_md5\<close> are \<^verbatim>\<open>pickle.dumps\<close> and the hex digest of \<^verbatim>\<open>hashlib.md5\<close> at these
  two values, the only ones they are used at. \<open>bare_client\<close> is the client the
  constructor builds with \<^verbatim>\<open>default_args={}\<close>.
\<close>

definition args_shared :: dict where
  "args_shared = [(key_db, PyStr gene_a), (key_term, PyStr gene_a)]"

definition args_copied :: dict where
  "args_copied = [(key_term, PyStr gene_b), (key_db, PyStr gene_a)]"

definition pickle_shared :: string where
  "pickle_shared =
     [CHR 0x80, CHR 0x04, CHR 0x95] @ '']'' @
     [CHR 0x00, CHR 0x00, CHR 0x00, CHR 0x00, CHR 0x00, CHR 0x00, CHR 0x00] @
     [CHR 0x8C] @ '':'' @ url_base @ ''/esearch.fcgi'' @ [CHR 0x94] @
     '']'' @ [CHR 0x94] @ ''('' @
     [CHR 0x8C, CHR 0x02] @ ''db'' @ [CHR 0x94] @
     [CHR 0x8C, CHR 0x04] @ ''gene'' @ [CHR 0x94] @ [CHR 0x86, CHR 0x94] @
     [CHR 0x8C, CHR 0x04] @ ''term'' @ [CHR 0x94] @
     ''h'' @ [CHR 0x03] @ [CHR 0x86, CHR 0x94] @
     ''e'' @ [CHR 0x86, CHR 0x94] @ ''.''"

definition pickle_copied :: string where
  "pickle_copied =
     [CHR 0x80, CHR 0x04, CHR 0x95] @ ''b'' @
     [CHR 0x00, CHR 0x00, CHR 0x00, CHR 0x00, CHR 0x00, CHR 0x00, CHR 0x00] @
     [CHR 0x8C] @ '':'' @ url_base @ ''/esearch.fcgi'' @ [CHR 0x94] @
     '']'' @ [CHR 0x94] @ ''('' @
     [CHR 0x8C, CHR 0x02] @ ''db'' @ [CHR 0x94] @
     [CHR 0x8C, CHR 0x04] @ ''gene'' @ [CHR 0x94] @ [CHR 0x86, CHR 0x94] @
     [CHR 0x8C, CHR 0x04] @ ''term'' @ [CHR 0x94] @
     [CHR 0x8C, CHR 0x04] @ ''gene'' @ [CHR 0x94] @ [CHR 0x86, CHR 0x94] @
     ''e'' @ [CHR 0x86, CHR 0x94] @ ''.''"

definition stdlib_dumps :: "string \<times> (pystr \<times> pyval) list \<Rightarrow> string" where
  "stdlib_dumps p =
     (if p = (url_base @ ''/esearch.fcgi'', [(key_db, PyStr gene_a), (key_term, PyStr gene_a)])
      then pickle_shared
      else if p = (url_base @ ''/esearch.fcgi'', [(key_db, PyStr gene_a), (key_term, PyStr gene_b)])
      then pickle_copied
      else [])"

definition stdlib_md5 :: "string \<Rightarrow> string" where
  "stdlib_md5 b =
     (if b = pickle_shared then ''661f09a2755d793011493882983ad188''
      else if b = pickle_copied then ''965d8452133ceeda01911e872bf354ba''
      else [])"

definition stdlib_env :: env where
  "stdlib_env =
     (sample_env (sample_reply True 200 ''OK'' doc_info) True 100)
       \<lparr>md5_hexdigest := stdlib_md5, pickle_dumps := stdlib_dumps\<rparr>"

definition bare_client :: QueryService where
  "bare_client =
     \<lparr>default_args = [],
      email = default_email,
      tool = sample_tool,
      api_key = None,
      request_interval = 1 / 3,
      last_request_clock = 0,
      ident_args = [(Str 7 ''tool'', PyStr sample_tool), (Str 8 ''email'', PyStr default_email)],
      request_count = 0,
      cache = None\<rparr>"

definition other_client :: QueryService where
  "other_client =
     \<lparr>default_args = [(Str 0 ''retmode'', PyStr (Str 1 ''xml''))],
      email = Str 26 ''me@example.org'',
      tool = Str 27 ''mytool'',
      api_key = Some ''secret'',
      request_interval = 1 / 10,
      last_request_clock = 0,
      ident_args = [(Str 7 ''tool'', PyStr (Str 27 ''mytool'')),
                    (Str 8 ''email'', PyStr (Str 26 ''me@example.org''))],
      request_count = 0,
      cache = None\<rparr>"

definition sample_key :: string where
  "sample_key = url_base @ ''/esearch.fcgi&db&retmode''"

definition sample_store :: store where
  "sample_store = [sample_key \<mapsto> ''<eSearchResult/>'']"

definition fresh_client :: QueryService where
  "fresh_client =
     \<lparr>default_args = default_default_args,
      email = default_email,
      tool = sample_tool,
      api_key = None,
      request_interval = 1 / 3,
      last_request_clock = 0,
      ident_args = [(Str 7 ''tool'', PyStr sample_tool), (Str 8 ''email'', PyStr default_email)],
      request_count = 0,
      cache = None\<rparr>"

section \<open>Facts about the Python values\<close>

lemma str_int_400: "str_int 400 = ''400''"
  by code_simp

lemma str_int_200: "str_int 200 = ''200''"
  by code_simp

text \<open>\<open>str_in\<close> is the substring relation of the library.\<close>

lemma str_in_sublist: "str_in n h = sublist n h"
  by (induction h) (auto simp: sublist_Cons_right)

lemma keys_setitem:
  "set (map (\<lambda>p. str_chars (fst p)) (setitem d k v)) =
     insert (str_chars k) (set (map (\<lambda>p. str_chars (fst p)) d))"
  by (induction d) auto

lemma distinct_setitem:
  "distinct (map (\<lambda>p. str_chars (fst p)) d) \<Longrightarrow>
   distinct (map (\<lambda>p. str_chars (fst p)) (setitem d k v))"
proof (induction d)
  case Nil
  then show ?case by simp
next
  case (Cons p d)
  show ?case
  proof (cases "str_chars (fst p) = str_chars k")
    case True
    with Cons.prems show ?thesis by simp
  next
    case False
    have "str_chars (fst p) \<notin> set (map (\<lambda>p. str_chars (fst p)) (setitem d k v))"
      using Cons.prems False keys_setitem [of d k v] by auto
    with Cons False show ?thesis by simp
  qed
qed

lemma distinct_fold_setitem:
  "distinct (map (\<lambda>p. str_chars (fst p)) d) \<Longrightarrow>
   distinct (map (\<lambda>p. str_chars (fst p)) (fold (\<lambda>kv d. setitem d (fst kv) (snd kv)) items d))"
  by (induction items arbitrary: d) (simp_all add: distinct_setitem)

text \<open>What \<open>py_dict\<close> builds is a dict: its keys are distinct as strings.\<close>

lemma distinct_py_dict: "distinct (map (\<lambda>p. str_chars (fst p)) (py_dict items))"
  by (simp add: py_dict_def distinct_fold_setitem)

text \<open>Two dicts holding the same items, the same objects, have the same sorted item list.\<close>

lemma sorted_items_same_objects:
  assumes "distinct (map (\<lambda>p. str_chars (fst p)) m1)"
    and "distinct (map (\<lambda>p. str_chars (fst p)) m2)"
    and "set m1 = set m2"
  shows "sorted_items m1 = sorted_items m2"
proof -
  let ?k = "\<lambda>p :: pystr \<times> pyval. str_chars (fst p)"
  let ?s1 = "sort_key ?k m1" and ?s2 = "sort_key ?k m2"
  have keys: "map ?k ?s1 = map ?k ?s2"
  proof (rule sorted_distinct_set_unique)
    show "sorted (map ?k ?s1)" "sorted (map ?k ?s2)" by simp_all
    show "distinct (map ?k ?s1)" using assms(1) by (simp add: distinct_map)
    show "distinct (map ?k ?s2)" using assms(2) by (simp add: distinct_map)
    show "set (map ?k ?s1) = set (map ?k ?s2)" using assms(3) by simp
  qed
  have "inj_on ?k (set ?s1 \<union> set ?s2)"
    using assms(1,3) by (simp add: distinct_map)
  with keys have "?s1 = ?s2" by (simp add: inj_on_map_eq_map)
  then show ?thesis by (simp add: sorted_items_def)
qed

section \<open>The cache key\<close>

text \<open>
  The order in which the items were inserted does not reach the key: two dicts that
  hold the same objects under the same keys give the same key.
\<close>

lemma cache_key_same_objects:
  "distinct (map (\<lambda>p. str_chars (fst p)) m1) \<Longrightarrow> distinct (map (\<lambda>p. str_chars (fst p)) m2) \<Longrightarrow>
   set m1 = set m2 \<Longrightarrow> cache_key E url m1 = cache_key E url m2"
  using sorted_items_same_objects [of m1 m2] by (simp add: cache_key_def)

text \<open>
  Claim C4, at two searches with the same arguments. \<open>args_shared\<close> and \<open>args_copied\<close>
  have the same keys and values, inserted in different orders; in the first both values
  are one str object, in the second two equal ones. The pickles differ, and so do the
  keys the code computes: the key depends on the identity of the objects, not on the
  content of the mapping alone.
\<close>

theorem cache_key_depends_on_object_identity:
  "contents args_shared = contents args_copied \<and>
   query_key stdlib_env bare_client ''/esearch.fcgi'' (Some args_shared) =
     ''661f09a2755d793011493882983ad188'' \<and>
   query_key stdlib_env bare_client ''/esearch.fcgi'' (Some args_copied) =
     ''965d8452133ceeda01911e872bf354ba''"
proof -
  have c: "contents args_shared = contents args_copied"
    by (simp add: contents_def args_shared_def args_copied_def plain_def key_db_def key_term_def
          gene_a_def gene_b_def insert_commute)
  have s1: "sorted_items (defining_args bare_client args_shared) =
      [(key_db, PyStr gene_a), (key_term, PyStr gene_a)]"
    by (simp add: defining_args_def bare_client_def py_dict_def sorted_items_def
          args_shared_def key_db_def key_term_def)
  have s2: "sorted_items (defining_args bare_client args_copied) =
      [(key_db, PyStr gene_a), (key_term, PyStr gene_b)]"
    by (simp add: defining_args_def bare_client_def py_dict_def sorted_items_def
          args_copied_def key_db_def key_term_def)
  have g: "gene_a \<noteq> gene_b"
    by (simp add: gene_a_def gene_b_def)
  have p: "pickle_copied \<noteq> pickle_shared"
    by (simp add: pickle_copied_def pickle_shared_def)
  have k1: "query_key stdlib_env bare_client ''/esearch.fcgi'' (Some args_shared) =
      ''661f09a2755d793011493882983ad188''"
    by (simp add: query_key_def cache_key_def args_or_empty_def s1 stdlib_env_def
          stdlib_dumps_def stdlib_md5_def)
  have k2: "query_key stdlib_env bare_client ''/esearch.fcgi'' (Some args_copied) =
      ''965d8452133ceeda01911e872bf354ba''"
    using g p
    by (simp add: query_key_def cache_key_def args_or_empty_def s2 stdlib_env_def
          stdlib_dumps_def stdlib_md5_def)
  show ?thesis by (intro conjI c k1 k2)
qed

section \<open>The shape of a run\<close>

lemma puts_append: "puts (xs @ ys) = puts xs @ puts ys"
  by (induction xs rule: puts.induct) simp_all

lemma slept_append: "slept (xs @ ys) = slept xs @ slept ys"
  by (induction xs rule: slept.induct) simp_all

lemma puts_throttle: "puts (throttle E self skip_sleep) = []"
  by (simp add: throttle_def)

text \<open>
  A call either is answered by the store or goes on to the network.
\<close>

lemma query_hit:
  "cache_lookup self (query_key E self path args) skip_cache = Some v \<Longrightarrow>
   query E self path args skip_cache skip_sleep = \<lparr>outcome = Inr v, service = self, trace = []\<rparr>"
  by (simp add: query_def)

lemma query_miss:
  "cache_lookup self (query_key E self path args) skip_cache = None \<Longrightarrow>
   query E self path args skip_cache skip_sleep =
     fetch E self (query_url self path) (query_key E self path args)
       (full_args self (args_or_empty args)) skip_sleep"
  by (simp add: query_def)

lemma fetch_reply:
  "requests_post E u fargs = Inr r \<Longrightarrow>
   fetch E self u key fargs skip_sleep =
     (case check_reply E u r of
        Inl ex \<Rightarrow> \<lparr>outcome = Inl ex, service = self\<lparr>last_request_clock := monotonic_done E\<rparr>,
                    trace = throttle E self skip_sleep @ [Post u fargs]\<rparr>
      | Inr x \<Rightarrow> store_reply E (self\<lparr>last_request_clock := monotonic_done E\<rparr>) key r
                    (throttle E self skip_sleep @ [Post u fargs]))"
  by (simp add: fetch_def Let_def)

lemma fetch_raise:
  "requests_post E u fargs = Inl ex \<Longrightarrow>
   fetch E self u key fargs skip_sleep =
     \<lparr>outcome = Inl ex, service = self, trace = throttle E self skip_sleep @ [Post u fargs]\<rparr>"
  by (simp add: fetch_def Let_def)

text \<open>
  The checks on a reply with a success status: it passes when no marker is in the
  text, and the marker of an access-denied page raises.
\<close>

lemma check_reply_ok:
  "ok r \<Longrightarrow> \<not> str_in ''<error>'' (resp_text r) \<Longrightarrow> \<not> str_in ''<ERROR>'' (resp_text r) \<Longrightarrow>
   \<not> str_in access_denied_marker (resp_text r) \<Longrightarrow> check_reply E u r = Inr ()"
  by (simp add: check_reply_def)

lemma check_reply_denied:
  "ok r \<Longrightarrow> \<not> str_in ''<error>'' (resp_text r) \<Longrightarrow> \<not> str_in ''<ERROR>'' (resp_text r) \<Longrightarrow>
   str_in access_denied_marker (resp_text r) \<Longrightarrow>
   check_reply E u r = Inl (EutilsRequestError (''Access Denied: '' @ u))"
  by (simp add: check_reply_def)

text \<open>
  The writes of a run, and what a run that raises leaves behind.
\<close>

lemma puts_store_reply:
  "puts (trace (store_reply E self key r tr)) =
     puts tr @ (if cache self \<noteq> None \<and> cacheable E (resp_text r) = Inr True
                then [(key, content r)] else [])"
  by (auto simp: store_reply_def puts_append split: option.split sum.split)

lemma puts_fetch_reply:
  "requests_post E u fargs = Inr r \<Longrightarrow>
   puts (trace (fetch E self u key fargs skip_sleep)) =
     (if cache self \<noteq> None \<and> check_reply E u r = Inr () \<and> cacheable E (resp_text r) = Inr True
      then [(key, content r)] else [])"
  by (auto simp: fetch_reply puts_store_reply puts_append puts_throttle split: sum.split)

lemma failed_store_reply:
  "outcome (store_reply E self key r tr) = Inl ex \<Longrightarrow>
   puts (trace (store_reply E self key r tr)) = puts tr \<and>
   cache (service (store_reply E self key r tr)) = cache self"
  by (auto simp: store_reply_def split: option.splits sum.splits if_splits)

lemma failed_fetch:
  "outcome (fetch E self u key fargs skip_sleep) = Inl ex \<Longrightarrow>
   puts (trace (fetch E self u key fargs skip_sleep)) = [] \<and>
   cache (service (fetch E self u key fargs skip_sleep)) = cache self"
proof (cases "requests_post E u fargs")
  case (Inl e)
  then show ?thesis by (simp add: fetch_raise puts_append puts_throttle)
next
  case (Inr r)
  assume failed: "outcome (fetch E self u key fargs skip_sleep) = Inl ex"
  show ?thesis
  proof (cases "check_reply E u r")
    case (Inl e)
    with Inr show ?thesis by (simp add: fetch_reply puts_append puts_throttle)
  next
    case ok: (Inr x)
    with Inr failed
    have "outcome (store_reply E (self\<lparr>last_request_clock := monotonic_done E\<rparr>) key r
            (throttle E self skip_sleep @ [Post u fargs])) = Inl ex"
      by (simp add: fetch_reply)
    from failed_store_reply [OF this] Inr ok show ?thesis
      by (simp add: fetch_reply puts_append puts_throttle)
  qed
qed

lemma failed_query:
  "outcome (query E self path args skip_cache skip_sleep) = Inl ex \<Longrightarrow>
   puts (trace (query E self path args skip_cache skip_sleep)) = [] \<and>
   cache (service (query E self path args skip_cache skip_sleep)) = cache self"
  by (cases "cache_lookup self (query_key E self path args) skip_cache")
     (simp_all add: query_miss query_hit failed_fetch)

lemma slept_query:
  "slept (trace (query E self path args skip_cache skip_sleep)) =
     (case cache_lookup self (query_key E self path args) skip_cache of
        Some v \<Rightarrow> []
      | None \<Rightarrow> slept (throttle E self skip_sleep))"
  by (simp add: query_def fetch_def store_reply_def Let_def slept_append
        split: option.split sum.split)

lemma init_fields:
  "QueryService_init E0 em c da ri tool_name k = Inr self \<Longrightarrow>
   last_request_clock self = 0 \<and> request_interval self = (if k = None then 1 / 3 else 1 / 10)"
  by (auto simp: QueryService_init_def Let_def split: sum.splits)

section \<open>Identity and the cache key\<close>

text \<open>
  Claim C5. The cache key of a call is computed from the endpoint, the default
  arguments and the arguments of the call, and from nothing else of the client: two
  clients with the same default arguments, whatever their tool, email and API key,
  compute the same key for the same endpoint and arguments.
\<close>

theorem cache_key_ignores_identity:
  "default_args s1 = default_args s2 \<Longrightarrow> query_key E s1 path args = query_key E s2 path args"
  by (simp add: query_key_def defining_args_def)

section \<open>The store answers\<close>

text \<open>
  Claim C6. When the store is read (\<open>skip_cache\<close> false) and holds a payload under the
  key of the call, the call returns that payload: nothing is posted, nothing is slept,
  and the client, its throttle clock included, is as before.
\<close>

theorem cache_hit_short_circuit:
  "cache self = Some st \<Longrightarrow> st (query_key E self path args) = Some v \<Longrightarrow>
   query E self path args False skip_sleep = \<lparr>outcome = Inr v, service = self, trace = []\<rparr>"
  by (rule query_hit) (simp add: cache_lookup_def)

section \<open>The throttle clock\<close>

text \<open>
  Claim C3, as the code has it. The clock of the last request is set to the reading
  taken after the post whenever the post returned a reply, with or without
  \<open>skip_sleep\<close>; it keeps its value when the store answered and when the post raised.
\<close>

theorem last_request_clock_after_query:
  "last_request_clock (service (query E self path args skip_cache skip_sleep)) =
     (case cache_lookup self (query_key E self path args) skip_cache of
        Some v \<Rightarrow> last_request_clock self
      | None \<Rightarrow>
          (case requests_post E (query_url self path) (full_args self (args_or_empty args)) of
             Inl ex \<Rightarrow> last_request_clock self
           | Inr r \<Rightarrow> monotonic_done E))"
  by (simp add: query_def fetch_def store_reply_def Let_def
        split: option.split sum.split)

text \<open>
  Claim C9, as the code has it. A client fresh from the constructor has the clock of
  the last request at 0, so its first call sleeps only when the monotonic clock reads
  less than the request interval: from a reading of at least the interval on, the sleep
  time is not positive and the call does not sleep.
\<close>

theorem first_call_waits_only_below_interval:
  assumes "QueryService_init E0 em c da ri tool_name k = Inr self"
    and "request_interval self \<le> monotonic_throttle E"
  shows "sleep_time self (monotonic_throttle E) \<le> 0 \<and>
         slept (trace (query E self path args skip_cache skip_sleep)) = []"
proof -
  have z: "last_request_clock self = 0" using init_fields [OF assms(1)] by simp
  have s: "sleep_time self (monotonic_throttle E) \<le> 0"
    using assms(2) z by (simp add: sleep_time_def)
  then have "slept (throttle E self skip_sleep) = []" by (simp add: throttle_def)
  with s show ?thesis by (simp add: slept_query split: option.split)
qed

section \<open>Writing to the store\<close>

text \<open>
  Claim C7. For a call that the store did not answer and that got a reply, the reply is
  written to the store, under the key of the call, exactly when a store is configured,
  the checks on the reply pass and \<open>cacheable\<close> answers true; \<open>skip_cache\<close> has no part in
  it. A call that raises has written nothing and leaves the store as it was.
\<close>

theorem store_put_iff_success:
  "(cache_lookup self (query_key E self path args) skip_cache = None \<longrightarrow>
    requests_post E (query_url self path) (full_args self (args_or_empty args)) = Inr r \<longrightarrow>
    puts (trace (query E self path args skip_cache skip_sleep)) =
      (if cache self \<noteq> None \<and> check_reply E (query_url self path) r = Inr () \<and>
          cacheable E (resp_text r) = Inr True
       then [(query_key E self path args, content r)] else []))
   \<and> (outcome (query E self path args skip_cache skip_sleep) = Inl ex \<longrightarrow>
        puts (trace (query E self path args skip_cache skip_sleep)) = [] \<and>
        cache (service (query E self path args skip_cache skip_sleep)) = cache self)"
  using failed_query [of E self path args skip_cache skip_sleep ex]
  by (simp add: query_miss puts_fetch_reply)

text \<open>
  Claim C10. A reply that passes every check, whose text holds \<^verbatim>\<open>no-cache\<close> and
  does not parse: with a store configured, the call raises what the parser raised
  instead of returning the payload, and writes nothing.
\<close>

theorem no_cache_parse_failure_escapes:
  assumes "cache self = Some st"
    and "cache_lookup self (query_key E self path args) skip_cache = None"
    and "requests_post E (query_url self path) (full_args self (args_or_empty args)) = Inr r"
    and "ok r" and "\<not> str_in ''<error>'' (resp_text r)" and "\<not> str_in ''<ERROR>'' (resp_text r)"
    and "\<not> str_in access_denied_marker (resp_text r)"
    and "str_in ''no-cache'' (resp_text r)"
    and "etree_XML E (resp_text r) = Inl ex"
  shows "outcome (query E self path args skip_cache skip_sleep) = Inl ex \<and>
         puts (trace (query E self path args skip_cache skip_sleep)) = []"
proof -
  have c: "check_reply E (query_url self path) r = Inr ()"
    using assms(4-7) by (rule check_reply_ok)
  have n: "cacheable E (resp_text r) = Inl ex"
    using assms(8,9) by (simp add: cacheable_def)
  have "outcome (query E self path args skip_cache skip_sleep) = Inl ex"
    using assms(1-3) c n by (simp add: query_miss fetch_reply store_reply_def)
  then show ?thesis by (simp add: failed_query)
qed

section \<open>Access denied\<close>

text \<open>
  Claim C8, as the code has it. A reply with a success status and no error marker
  whose text holds the access-denied marker makes the call raise
  \<open>EutilsRequestError\<close>, the class of a rejected request, with the message
  \<^verbatim>\<open>Access Denied: \<close> followed by the url of the request.
\<close>

theorem access_denied_is_request_error:
  assumes "cache_lookup self (query_key E self path args) skip_cache = None"
    and "requests_post E (query_url self path) (full_args self (args_or_empty args)) = Inr r"
    and "ok r" and "\<not> str_in ''<error>'' (resp_text r)" and "\<not> str_in ''<ERROR>'' (resp_text r)"
    and "str_in access_denied_marker (resp_text r)"
  shows "outcome (query E self path args skip_cache skip_sleep) =
           Inl (EutilsRequestError (''Access Denied: '' @ query_url self path)) \<and>
         puts (trace (query E self path args skip_cache skip_sleep)) = []"
proof -
  have c: "check_reply E (query_url self path) r =
             Inl (EutilsRequestError (''Access Denied: '' @ query_url self path))"
    using assms(3-6) by (rule check_reply_denied)
  have "outcome (query E self path args skip_cache skip_sleep) =
          Inl (EutilsRequestError (''Access Denied: '' @ query_url self path))"
    using assms(1,2) c by (simp add: query_miss fetch_reply)
  then show ?thesis by (simp add: failed_query)
qed

section \<open>Facts about the samples\<close>

lemma sample_env_fields:
  "requests_post (sample_env r c n) u a = Inr r"
  "monotonic_throttle (sample_env r c n) = n"
  "monotonic_done (sample_env r c n) = n + 1"
  "etree_fromstring (sample_env r c n) = sample_parse"
  "etree_XML (sample_env r c n) = sample_parse"
  "request_error_is_Exception (sample_env r c n) = c"
  "md5_hexdigest (sample_env r c n) b = b"
  "pickle_dumps (sample_env r c n) = sample_dumps"
  by (simp_all add: sample_env_def)

lemma sample_reply_fields:
  "ok (sample_reply k code rsn body) = k"
  "status_code (sample_reply k code rsn body) = code"
  "reason (sample_reply k code rsn body) = rsn"
  "headers (sample_reply k code rsn body) ''Content-Type'' = Some ''text/xml''"
  "resp_text (sample_reply k code rsn body) = body"
  "content (sample_reply k code rsn body) = body"
  by (simp_all add: sample_reply_def)

lemma sample_query_key:
  "query_key (sample_env r c n) (sample_client k st) ''/esearch.fcgi'' (Some args_gene) =
     sample_key"
  by (simp add: query_key_def cache_key_def defining_args_def args_or_empty_def
        sample_client_def py_dict_def sorted_items_def sample_env_fields sample_dumps_def
        sample_key_def args_gene_def key_db_def)

lemma parse_doc_error: "sample_parse doc_error = Inr tree_error"
  by (simp add: sample_parse_def)

lemma parse_doc_error_lower: "sample_parse doc_error_lower = Inr tree_error_lower"
  by (simp add: sample_parse_def doc_error_def doc_error_lower_def)

lemma parse_doc_broken: "sample_parse doc_broken = Inl (XMLSyntaxError ''not well-formed'')"
  by (simp add: sample_parse_def doc_error_def doc_error_lower_def doc_denied_def
        doc_info_def doc_no_cache_def doc_broken_def)

lemma markers_doc_error: "str_in ''<ERROR>'' doc_error"
  by (simp add: doc_error_def)

lemma markers_doc_error_lower: "str_in ''<error>'' doc_error_lower"
  by (simp add: doc_error_lower_def)

lemma markers_doc_info:
  "\<not> str_in ''<error>'' doc_info" "\<not> str_in ''<ERROR>'' doc_info"
  "\<not> str_in access_denied_marker doc_info" "\<not> str_in ''no-cache'' doc_info"
  by (simp_all add: doc_info_def access_denied_marker_def)

lemma markers_doc_denied:
  "\<not> str_in ''<error>'' doc_denied" "\<not> str_in ''<ERROR>'' doc_denied"
  "str_in access_denied_marker doc_denied"
  by (simp_all add: doc_denied_def access_denied_marker_def)

lemma markers_doc_broken:
  "\<not> str_in ''<error>'' doc_broken" "\<not> str_in ''<ERROR>'' doc_broken"
  "\<not> str_in access_denied_marker doc_broken" "str_in ''no-cache'' doc_broken"
  by (simp_all add: doc_broken_def access_denied_marker_def)

lemma cache_lookup_none:
  "cache self = None \<Longrightarrow> cache_lookup self key skip_cache = None"
  "cache_lookup self key True = None"
  by (simp_all add: cache_lookup_def)

lemma sample_client_fields:
  "cache (sample_client k st) = st"
  "api_key (sample_client k st) = k"
  "last_request_clock (sample_client k st) = 5"
  "default_args (sample_client k st) = [(Str 0 ''retmode'', PyStr (Str 1 ''xml''))]"
  by (simp_all add: sample_client_def)

lemma outcome_check_fails:
  "cache_lookup self (query_key E self path args) skip_cache = None \<Longrightarrow>
   requests_post E (query_url self path) (full_args self (args_or_empty args)) = Inr r \<Longrightarrow>
   check_reply E (query_url self path) r = Inl ex \<Longrightarrow>
   outcome (query E self path args skip_cache skip_sleep) = Inl ex"
  by (simp add: query_miss fetch_reply)

lemma check_rejected:
  "check_reply (sample_env r c n) u (sample_reply False 400 ''Bad Request'' doc_error) =
     Inl (if c then EutilsNCBIError
                 ''Error parsing response object from NCBI: Bad Request (400): Unknown Error''
          else EutilsRequestError ''Bad Request (400): Unknown Error'')"
  by (simp add: check_reply_def sample_reply_fields sample_env_fields except_Exception_def
        try_not_ok_def parse_doc_error tree_error_def el_find_def el_bool_def format_error_def
        str_int_400)

lemma check_embedded:
  "check_reply (sample_env r c n) u (sample_reply True 200 ''OK'' doc_error) =
     Inl (if c then EutilsNCBIError
                 ''Error parsing response object from NCBI: OK (200): bad database''
          else EutilsRequestError ''OK (200): bad database'')"
  by (simp add: check_reply_def sample_reply_fields sample_env_fields except_Exception_def
        try_embedded_def parse_doc_error tree_error_def el_find_def format_error_def
        format_text_def str_int_200 markers_doc_error)

lemma check_embedded_lower:
  "check_reply (sample_env r c n) u (sample_reply True 200 ''OK'' doc_error_lower) =
     Inl (EutilsNCBIError (''Error parsing response object from NCBI: '' @ none_has_no_text))"
  by (simp add: check_reply_def sample_reply_fields sample_env_fields except_Exception_def
        try_embedded_def parse_doc_error_lower tree_error_lower_def el_find_def
        markers_doc_error_lower)

section \<open>The claims at the samples\<close>

text \<open>
  Claim C1, at a rejected search. The reply has status 400, the content type
  \<^verbatim>\<open>text/xml\<close> and the body \<^verbatim>\<open><eSearchResult><ERROR>bad database</ERROR></eSearchResult>\<close>.
  The \<open>EutilsRequestError\<close> is raised inside the \<^verbatim>\<open>try\<close> block, so with
  \<open>EutilsRequestError\<close> an \<^verbatim>\<open>Exception\<close> the handler turns it into an \<open>EutilsNCBIError\<close>;
  and the \<^verbatim>\<open>ERROR\<close> element has no children, so it counts as false and its text is
  replaced by \<^verbatim>\<open>Unknown Error\<close>, whatever the class hierarchy. The call raises neither
  an \<open>EutilsRequestError\<close> in the first case nor the text \<^verbatim>\<open>bad database\<close> in either.
\<close>

theorem rejected_query_raises_ncbi_error:
  "outcome (query (sample_env (sample_reply False 400 ''Bad Request'' doc_error) True 100)
      (sample_client None None) ''/esearch.fcgi'' (Some args_bogus) False False) =
     Inl (EutilsNCBIError
            ''Error parsing response object from NCBI: Bad Request (400): Unknown Error'') \<and>
   outcome (query (sample_env (sample_reply False 400 ''Bad Request'' doc_error) False 100)
      (sample_client None None) ''/esearch.fcgi'' (Some args_bogus) False False) =
     Inl (EutilsRequestError ''Bad Request (400): Unknown Error'')"
  by (simp add: outcome_check_fails cache_lookup_none sample_client_fields sample_env_fields
        check_rejected)

text \<open>
  Claim C2, at a reply with status 200 and an embedded error. With the body
  \<^verbatim>\<open><eSearchResult><ERROR>bad database</ERROR></eSearchResult>\<close> and \<open>EutilsRequestError\<close> an
  \<^verbatim>\<open>Exception\<close>, the handler turns the \<open>EutilsRequestError\<close> into an \<open>EutilsNCBIError\<close>.
  With the body \<^verbatim>\<open><r><error>x</error></r>\<close> there is no \<^verbatim>\<open>ERROR\<close> element, \<^verbatim>\<open>find\<close>
  returns \<^verbatim>\<open>None\<close> and the call raises an \<open>EutilsNCBIError\<close> about the
  \<open>AttributeError\<close>, whatever the class hierarchy.
\<close>

theorem embedded_error_raises_ncbi_error:
  "outcome (query (sample_env (sample_reply True 200 ''OK'' doc_error) True 100)
      (sample_client None None) ''/esearch.fcgi'' (Some args_bogus) False False) =
     Inl (EutilsNCBIError
            ''Error parsing response object from NCBI: OK (200): bad database'') \<and>
   outcome (query (sample_env (sample_reply True 200 ''OK'' doc_error_lower) False 100)
      (sample_client None None) ''/esearch.fcgi'' (Some args_bogus) False False) =
     Inl (EutilsNCBIError (''Error parsing response object from NCBI: '' @ none_has_no_text))"
  by (simp add: outcome_check_fails cache_lookup_none sample_client_fields sample_env_fields
        check_embedded check_embedded_lower)

lemma sample_query_url:
  "query_url (sample_client None st) path = url_base @ path"
  "query_url (sample_client (Some ''k'') st) path = url_base @ path @ ''?api_key=k''"
  by (simp_all add: query_url_def request_url_def sample_client_fields)

lemma clock_after_reply:
  "cache_lookup self (query_key E self path args) skip_cache = None \<Longrightarrow>
   requests_post E (query_url self path) (full_args self (args_or_empty args)) = Inr r \<Longrightarrow>
   last_request_clock (service (query E self path args skip_cache skip_sleep)) = monotonic_done E"
  by (simp add: query_miss fetch_reply store_reply_def split: sum.split option.split)

text \<open>The sample clients without a history are clients the constructor builds.\<close>

lemma init_bare_client:
  "QueryService_init E default_email (CacheBool False) [] None sample_tool None = Inr bare_client"
  by (simp add: QueryService_init_def open_cache_def cache_path_def bare_client_def)

lemma init_other_client:
  "QueryService_init E (Str 26 ''me@example.org'') (CacheBool False)
      [(Str 0 ''retmode'', PyStr (Str 1 ''xml''))] None (Str 27 ''mytool'') (Some ''secret'') =
     Inr other_client"
  by (simp add: QueryService_init_def open_cache_def cache_path_def other_client_def)

lemma init_fresh_client:
  "QueryService_init E default_email (CacheBool False) default_default_args None sample_tool None =
     Inr fresh_client"
  by (simp add: QueryService_init_def open_cache_def cache_path_def fresh_client_def)

text \<open>
  Claim C3 fails as stated: a call with \<open>skip_sleep\<close> true that reaches the network
  moves the clock of the last request, here from 5 to 101.
\<close>

theorem skip_sleep_still_sets_clock:
  "last_request_clock (sample_client None None) = 5 \<and>
   last_request_clock (service (query (sample_env (sample_reply True 200 ''OK'' doc_info) True 100)
      (sample_client None None) ''/einfo.fcgi'' None True True)) = 101"
  by (simp add: clock_after_reply cache_lookup_none sample_env_fields sample_client_fields)

text \<open>
  The clock after two calls: one that posts, one that the store answers.
\<close>

theorem last_request_clock_after_query_witness:
  "last_request_clock (service (query (sample_env (sample_reply True 200 ''OK'' doc_info) True 100)
      (sample_client None None) ''/einfo.fcgi'' None True False)) = 101 \<and>
   last_request_clock (service (query (sample_env (sample_reply True 200 ''OK'' doc_info) True 100)
      (sample_client None (Some sample_store)) ''/esearch.fcgi'' (Some args_gene)
      False False)) = 5"
  using
    last_request_clock_after_query [of "sample_env (sample_reply True 200 ''OK'' doc_info) True 100"
      "sample_client None None" "''/einfo.fcgi''" None True False]
    last_request_clock_after_query [of "sample_env (sample_reply True 200 ''OK'' doc_info) True 100"
      "sample_client None (Some sample_store)" "''/esearch.fcgi''" "Some args_gene"
      False False]
  by (simp add: cache_lookup_none sample_env_fields cache_lookup_def sample_client_fields
        sample_query_key sample_store_def)

text \<open>
  Two clients that differ in tool, email and API key, and their keys.
\<close>

theorem cache_key_ignores_identity_witness:
  "default_args (sample_client None None) =
     default_args other_client \<and>
   query_key (sample_env (sample_reply True 200 ''OK'' doc_info) True 100) (sample_client None None)
       ''/esearch.fcgi'' (Some args_gene) =
     query_key (sample_env (sample_reply True 200 ''OK'' doc_info) True 100)
       other_client
       ''/esearch.fcgi'' (Some args_gene)"
proof -
  have h: "default_args (sample_client None None) =
     default_args other_client"
    by (simp add: sample_client_def other_client_def)
  show ?thesis by (intro conjI h cache_key_ignores_identity [OF h])
qed

text \<open>
  A store holding the key of the call.
\<close>

theorem cache_hit_short_circuit_witness:
  "cache (sample_client None (Some sample_store)) = Some sample_store \<and>
   sample_store (query_key (sample_env (sample_reply True 200 ''OK'' doc_info) True 100)
      (sample_client None (Some sample_store)) ''/esearch.fcgi'' (Some args_gene)) =
     Some ''<eSearchResult/>'' \<and>
   query (sample_env (sample_reply True 200 ''OK'' doc_info) True 100)
      (sample_client None (Some sample_store)) ''/esearch.fcgi'' (Some args_gene)
      False False =
     \<lparr>outcome = Inr ''<eSearchResult/>'', service = sample_client None (Some sample_store),
      trace = []\<rparr>"
proof -
  have c: "cache (sample_client None (Some sample_store)) = Some sample_store"
    by (simp add: sample_client_fields)
  have k: "sample_store (query_key (sample_env (sample_reply True 200 ''OK'' doc_info) True 100)
      (sample_client None (Some sample_store)) ''/esearch.fcgi'' (Some args_gene)) =
     Some ''<eSearchResult/>''"
    by (simp add: sample_query_key sample_store_def)
  show ?thesis by (intro conjI c k cache_hit_short_circuit [OF c k])
qed

lemma check_json_rejected:
  "check_reply E u sample_json_reply =
     Inl (EutilsRequestError ''Bad Request (400): API key invalid'')"
  by (simp add: check_reply_def sample_json_reply_def format_error_def str_int_400)

lemma check_sample_denied:
  "check_reply E u (sample_reply True 200 ''OK'' doc_denied) =
     Inl (EutilsRequestError (''Access Denied: '' @ u))"
  by (simp add: check_reply_denied sample_reply_fields markers_doc_denied)

lemma check_sample_info:
  "check_reply E u (sample_reply True 200 ''OK'' doc_info) = Inr ()"
  by (simp add: check_reply_ok sample_reply_fields markers_doc_info)

lemma cacheable_doc_info: "cacheable E doc_info = Inr True"
  by (simp add: cacheable_def markers_doc_info)

text \<open>
  A reply that is written to the store, with \<open>skip_cache\<close> true, and a reply that
  raises and is not.
\<close>

theorem store_put_iff_success_witness:
  "puts (trace (query (sample_env (sample_reply True 200 ''OK'' doc_info) True 100)
      (sample_client None (Some Map.empty)) ''/esearch.fcgi'' (Some args_gene)
      True False)) = [(sample_key, doc_info)] \<and>
   outcome (query (sample_env (sample_reply True 200 ''OK'' doc_denied) True 100)
      (sample_client None (Some Map.empty)) ''/esearch.fcgi'' (Some args_gene)
      True False) = Inl (EutilsRequestError (''Access Denied: '' @ url_base @ ''/esearch.fcgi'')) \<and>
   puts (trace (query (sample_env (sample_reply True 200 ''OK'' doc_denied) True 100)
      (sample_client None (Some Map.empty)) ''/esearch.fcgi'' (Some args_gene)
      True False)) = [] \<and>
   cache (service (query (sample_env (sample_reply True 200 ''OK'' doc_denied) True 100)
      (sample_client None (Some Map.empty)) ''/esearch.fcgi'' (Some args_gene)
      True False)) = Some Map.empty"
proof -
  have o: "outcome (query (sample_env (sample_reply True 200 ''OK'' doc_denied) True 100)
      (sample_client None (Some Map.empty)) ''/esearch.fcgi'' (Some args_gene)
      True False) = Inl (EutilsRequestError (''Access Denied: '' @ url_base @ ''/esearch.fcgi''))"
    by (simp add: outcome_check_fails cache_lookup_none sample_env_fields check_sample_denied
          sample_query_url)
  show ?thesis
    using o
      store_put_iff_success [where E = "sample_env (sample_reply True 200 ''OK'' doc_info) True 100"
        and self = "sample_client None (Some Map.empty)" and path = "''/esearch.fcgi''"
        and args = "Some args_gene" and skip_cache = True and skip_sleep = False
        and r = "sample_reply True 200 ''OK'' doc_info"]
      store_put_iff_success [where E = "sample_env (sample_reply True 200 ''OK'' doc_denied) True 100"
        and self = "sample_client None (Some Map.empty)" and path = "''/esearch.fcgi''"
        and args = "Some args_gene" and skip_cache = True and skip_sleep = False
        and ex = "EutilsRequestError (''Access Denied: '' @ url_base @ ''/esearch.fcgi'')"]
    by (simp add: cache_lookup_none sample_env_fields sample_client_fields check_sample_info
          sample_reply_fields cacheable_doc_info sample_query_key)
qed

text \<open>
  Claim C8 fails as stated: the exception raised for an access-denied page is an
  \<open>EutilsRequestError\<close>, the class raised for a request rejected in JSON.
\<close>

theorem access_denied_raises_request_error:
  "outcome (query (sample_env (sample_reply True 200 ''OK'' doc_denied) True 100)
      (sample_client None None) ''/esearch.fcgi'' (Some args_gene) False False) =
     Inl (EutilsRequestError (''Access Denied: '' @ url_base @ ''/esearch.fcgi'')) \<and>
   outcome (query (sample_env sample_json_reply True 100)
      (sample_client None None) ''/esearch.fcgi'' (Some args_gene) False False) =
     Inl (EutilsRequestError ''Bad Request (400): API key invalid'')"
  by (simp add: outcome_check_fails cache_lookup_none sample_client_fields sample_env_fields
        check_sample_denied check_json_rejected sample_query_url)

text \<open>
  An access-denied page on a client with an API key: the message carries the url with
  the key appended.
\<close>

theorem access_denied_is_request_error_witness:
  "ok (sample_reply True 200 ''OK'' doc_denied) \<and>
   str_in access_denied_marker (resp_text (sample_reply True 200 ''OK'' doc_denied)) \<and>
   outcome (query (sample_env (sample_reply True 200 ''OK'' doc_denied) True 100)
      (sample_client (Some ''k'') None) ''/esearch.fcgi'' (Some args_gene)
      False False) =
     Inl (EutilsRequestError (''Access Denied: '' @ url_base @ ''/esearch.fcgi?api_key=k'')) \<and>
   puts (trace (query (sample_env (sample_reply True 200 ''OK'' doc_denied) True 100)
      (sample_client (Some ''k'') None) ''/esearch.fcgi'' (Some args_gene)
      False False)) = []"
  using access_denied_is_request_error
      [where E = "sample_env (sample_reply True 200 ''OK'' doc_denied) True 100"
        and self = "sample_client (Some ''k'') None" and path = "''/esearch.fcgi''"
        and args = "Some args_gene" and skip_cache = False and skip_sleep = False
        and r = "sample_reply True 200 ''OK'' doc_denied"]
  by (simp add: cache_lookup_none sample_env_fields sample_client_fields sample_reply_fields
        markers_doc_denied sample_query_url)

text \<open>
  Claim C9 fails as stated: the client fresh from the constructor, without an API
  key, sleeps 5/24 s in its first call when the monotonic clock reads 1/8 s.
\<close>

theorem first_call_may_wait:
  "QueryService_init (sample_env (sample_reply True 200 ''OK'' doc_info) True (1 / 8))
      default_email (CacheBool False) default_default_args None sample_tool None = Inr fresh_client \<and>
   monotonic_throttle (sample_env (sample_reply True 200 ''OK'' doc_info) True (1 / 8)) = 1 / 8 \<and>
   slept (trace (query (sample_env (sample_reply True 200 ''OK'' doc_info) True (1 / 8))
      fresh_client ''/einfo.fcgi'' None True False)) = [5 / 24]"
  by (simp add: init_fresh_client slept_query cache_lookup_none throttle_def sleep_time_def
        fresh_client_def sample_env_fields)

text \<open>
  The same client when the clock reads 100 s.
\<close>

theorem first_call_waits_only_below_interval_witness:
  "QueryService_init (sample_env (sample_reply True 200 ''OK'' doc_info) True 100)
      default_email (CacheBool False) default_default_args None sample_tool None = Inr fresh_client \<and>
   request_interval fresh_client \<le> monotonic_throttle (sample_env (sample_reply True 200 ''OK'' doc_info) True 100) \<and>
   sleep_time fresh_client (monotonic_throttle (sample_env (sample_reply True 200 ''OK'' doc_info) True 100)) \<le> 0 \<and>
   slept (trace (query (sample_env (sample_reply True 200 ''OK'' doc_info) True 100)
      fresh_client ''/einfo.fcgi'' None True False)) = []"
proof -
  have le: "request_interval fresh_client \<le>
      monotonic_throttle (sample_env (sample_reply True 200 ''OK'' doc_info) True 100)"
    by (simp add: fresh_client_def sample_env_fields)
  show ?thesis
    using le first_call_waits_only_below_interval [OF init_fresh_client le]
    by (simp add: init_fresh_client)
qed

text \<open>
  The text \<^verbatim>\<open>no-cache <oops\<close> returned with status 200 to a client with a store.
\<close>

theorem no_cache_parse_failure_escapes_witness:
  "str_in ''no-cache'' (resp_text (sample_reply True 200 ''OK'' doc_broken)) \<and>
   etree_XML (sample_env (sample_reply True 200 ''OK'' doc_broken) True 100)
      (resp_text (sample_reply True 200 ''OK'' doc_broken)) = Inl (XMLSyntaxError ''not well-formed'') \<and>
   outcome (query (sample_env (sample_reply True 200 ''OK'' doc_broken) True 100)
      (sample_client None (Some Map.empty)) ''/esearch.fcgi'' (Some args_gene)
      False False) = Inl (XMLSyntaxError ''not well-formed'') \<and>
   puts (trace (query (sample_env (sample_reply True 200 ''OK'' doc_broken) True 100)
      (sample_client None (Some Map.empty)) ''/esearch.fcgi'' (Some args_gene)
      False False)) = []"
  using no_cache_parse_failure_escapes
      [where E = "sample_env (sample_reply True 200 ''OK'' doc_broken) True 100"
        and self = "sample_client None (Some Map.empty)" and st = Map.empty
        and path = "''/esearch.fcgi''"
        and args = "Some args_gene" and skip_cache = False and skip_sleep = False
        and r = "sample_reply True 200 ''OK'' doc_broken"
        and ex = "XMLSyntaxError ''not well-formed''"]
  by (simp add: cache_lookup_def sample_env_fields sample_client_fields sample_reply_fields
        markers_doc_broken parse_doc_broken)

end
